theory Spec2Isabelle
  imports Complex_Main
begin

section \<open>The chat relay handler of fancychat-app\<close>

text \<open>
  The repository holds two variants of one Next.js route handler, \<^verbatim>\<open>POST /api/chat\<close>:
  the base variant (\<^verbatim>\<open>src/app/api/chat/route.js\<close>) and the timeout-aware variant (the
  second source file), which adds a 30 second deadline, a classification of transport
  failures and a finer mapping of upstream statuses. Both are embedded below as functions
  of everything the JavaScript reads: the process environment, the outcome of
  \<^verbatim>\<open>request.json()\<close>, the behaviour of the network behind \<^verbatim>\<open>fetch\<close>, and (for the
  timeout-aware variant) the timers of the event loop. Calls of \<^verbatim>\<open>console.error\<close> are
  left out: they change neither the returned response nor the timers. What a handler
  returns is \<open>Inr\<close> of a response, or \<open>Inl\<close> of the error its promise rejects with.
\<close>

subsection \<open>JavaScript values\<close>

text \<open>
  A number produced by \<^verbatim>\<open>JSON.parse\<close>: the value of a finite double, or one of the two
  infinities, which a literal beyond the range of doubles (\<^verbatim>\<open>1e400\<close>, \<^verbatim>\<open>-1e400\<close>) parses
  to.
\<close>

datatype js_number = Finite rat | PosInfinity | NegInfinity

text \<open>
  A value produced by \<^verbatim>\<open>JSON.parse\<close>; an object is the list of its own properties. The
  JavaScript value \<^verbatim>\<open>undefined\<close> is \<open>None\<close> of \<open>json option\<close>.
\<close>

datatype json =
    JNull
  | JBool bool
  | JNum js_number
  | JStr string
  | JArr "json list"
  | JObj "(string \<times> json) list"

text \<open>The \<^verbatim>\<open>code\<close> property of an error object: missing, a string, or a number.\<close>

datatype err_code = NoCode | StrCode string | NumCode int

text \<open>
  A thrown error object: the three properties the handlers inspect (\<^verbatim>\<open>name\<close>,
  \<^verbatim>\<open>code\<close>, \<^verbatim>\<open>message\<close>) and its \<^verbatim>\<open>cause\<close>, which they never read.
\<close>

datatype js_error =
  JsError (err_name: string) (err_code: err_code) (err_message: string)
    (err_cause: "js_error option")

text \<open>ToBoolean of a parsed value, as \<^verbatim>\<open>!x\<close> and \<^verbatim>\<open>x || y\<close> apply it.\<close>

fun truthy :: "json \<Rightarrow> bool" where
  "truthy JNull = False"
| "truthy (JBool b) = b"
| "truthy (JNum n) = (n \<noteq> Finite 0)"
| "truthy (JStr s) = (s \<noteq> [])"
| "truthy (JArr xs) = True"
| "truthy (JObj kvs) = True"

fun truthy_opt :: "json option \<Rightarrow> bool" where
  "truthy_opt None = False"
| "truthy_opt (Some v) = truthy v"

fun isArray :: "json option \<Rightarrow> bool" where
  "isArray (Some (JArr xs)) = True"
| "isArray _ = False"

text \<open>
  The error of reading a property of \<^verbatim>\<open>null\<close> or \<^verbatim>\<open>undefined\<close>, with the message
  text of V8 (the engine under Node.js).
\<close>

definition null_property_error :: "string \<Rightarrow> string \<Rightarrow> js_error" where
  "null_property_error base key =
     JsError ''TypeError'' NoCode
       (''Cannot read properties of '' @ base @ '' (reading '' @ [CHR 0x27] @ key @ [CHR 0x27] @ '')'')
       None"

text \<open>
  \<^verbatim>\<open>v.key\<close> for the keys the handlers read (\<^verbatim>\<open>message\<close>, \<^verbatim>\<open>choices\<close>, \<^verbatim>\<open>content\<close>,
  \<^verbatim>\<open>usage\<close>): an object gives its own property, \<^verbatim>\<open>null\<close> throws, and every other
  value (boolean, number, string, array) has no property of these names.
\<close>

fun get_prop :: "json \<Rightarrow> string \<Rightarrow> js_error + json option" where
  "get_prop JNull key = Inl (null_property_error ''null'' key)"
| "get_prop (JObj kvs) key = Inr (map_of kvs key)"
| "get_prop v key = Inr None"

text \<open>\<^verbatim>\<open>v?.key\<close>: \<^verbatim>\<open>undefined\<close> when \<open>v\<close> is \<^verbatim>\<open>undefined\<close> or \<^verbatim>\<open>null\<close>, never a throw.\<close>

fun opt_chain :: "json option \<Rightarrow> string \<Rightarrow> json option" where
  "opt_chain None key = None"
| "opt_chain (Some JNull) key = None"
| "opt_chain (Some (JObj kvs)) key = map_of kvs key"
| "opt_chain (Some v) key = None"

text \<open>
  \<^verbatim>\<open>v[0]\<close> on any value: the first element of an array, the first character of a
  string, the property \<^verbatim>\<open>"0"\<close> of an object; \<^verbatim>\<open>undefined\<close> and \<^verbatim>\<open>null\<close> throw.
\<close>

fun get_index0 :: "json option \<Rightarrow> js_error + json option" where
  "get_index0 None = Inl (null_property_error ''undefined'' ''0'')"
| "get_index0 (Some JNull) = Inl (null_property_error ''null'' ''0'')"
| "get_index0 (Some (JArr [])) = Inr None"
| "get_index0 (Some (JArr (x # xs))) = Inr (Some x)"
| "get_index0 (Some (JStr [])) = Inr None"
| "get_index0 (Some (JStr (c # cs))) = Inr (Some (JStr [c]))"
| "get_index0 (Some (JObj kvs)) = Inr (map_of kvs ''0'')"
| "get_index0 (Some v) = Inr None"

text \<open>\<^verbatim>\<open>x || 'No response generated'\<close>.\<close>

definition or_default :: "json option \<Rightarrow> json" where
  "or_default x =
     (case x of
        None \<Rightarrow> JStr ''No response generated''
      | Some v \<Rightarrow> if truthy v then v else JStr ''No response generated'')"

text \<open>\<^verbatim>\<open>s.includes(sub)\<close> on strings.\<close>

fun starts_with :: "string \<Rightarrow> string \<Rightarrow> bool" where
  "starts_with s [] = True"
| "starts_with [] (c # cs) = False"
| "starts_with (d # ds) (c # cs) = (d = c \<and> starts_with ds cs)"

fun str_includes :: "string \<Rightarrow> string \<Rightarrow> bool" where
  "str_includes [] sub = (sub = [])"
| "str_includes (d # ds) sub = (starts_with (d # ds) sub \<or> str_includes ds sub)"

subsection \<open>Environment, request, network\<close>

text \<open>\<^verbatim>\<open>process.env\<close>: each variable is a string or \<^verbatim>\<open>undefined\<close>.\<close>

record env =
  OPENROUTER_API_KEY :: "string option"
  APP_URL :: "string option"
  APP_NAME :: "string option"

text \<open>ToBoolean of an environment variable: \<^verbatim>\<open>undefined\<close> and the empty string are falsy.\<close>

fun truthy_str :: "string option \<Rightarrow> bool" where
  "truthy_str None = False"
| "truthy_str (Some s) = (s \<noteq> [])"

text \<open>\<^verbatim>\<open>process.env.X || 'default'\<close>.\<close>

definition str_or :: "string option \<Rightarrow> string \<Rightarrow> string" where
  "str_or x d = (case x of None \<Rightarrow> d | Some s \<Rightarrow> if s \<noteq> [] then s else d)"

text \<open>The incoming request is the outcome of \<^verbatim>\<open>await request.json()\<close>: a throw or a value.\<close>

type_synonym request = "js_error + json"

text \<open>The object given to \<^verbatim>\<open>JSON.stringify\<close> as the body of the upstream call.\<close>

record upstream_body =
  model :: string
  messages :: json
  max_tokens :: nat
  temperature :: rat

text \<open>What the upstream server sees of the call: URL, method, headers and body.\<close>

record fetch_request =
  url :: string
  http_method :: string
  headers :: "(string \<times> string) list"
  payload :: upstream_body

text \<open>
  The \<^verbatim>\<open>Response\<close> that \<^verbatim>\<open>fetch\<close> resolves with: its status, its status text, and the
  outcomes of \<^verbatim>\<open>await r.text()\<close> and \<^verbatim>\<open>await r.json()\<close> (each handler path calls at most
  one of the two).
\<close>

record upstream_response =
  up_status :: nat
  up_statusText :: string
  up_text :: "js_error + string"
  up_json :: "js_error + json"

text \<open>\<^verbatim>\<open>r.ok\<close> as the Fetch standard defines it: the status is in the range 200 to 299.\<close>

definition ok :: "upstream_response \<Rightarrow> bool" where
  "ok r = (200 \<le> up_status r \<and> up_status r \<le> 299)"

text \<open>
  The behaviour of the network for one call: the promise resolves with a response or
  rejects with an error after some milliseconds, or it never settles.
\<close>

datatype fetch_outcome =
    Resolves nat upstream_response
  | Rejects nat js_error
  | Hangs

type_synonym fetch = "fetch_request \<Rightarrow> fetch_outcome"

text \<open>The response handed to the caller: its status and the JSON value its body holds.\<close>

record response =
  status :: nat
  body :: json

text \<open>
  What \<^verbatim>\<open>JSON.stringify\<close> writes for a parsed value, read back as JSON: the value itself,
  except that an infinite number is written as \<^verbatim>\<open>null\<close>.
\<close>

fun serialised :: "json \<Rightarrow> json" where
  "serialised JNull = JNull"
| "serialised (JBool b) = JBool b"
| "serialised (JNum (Finite q)) = JNum (Finite q)"
| "serialised (JNum PosInfinity) = JNull"
| "serialised (JNum NegInfinity) = JNull"
| "serialised (JStr s) = JStr s"
| "serialised (JArr xs) = JArr (map serialised xs)"
| "serialised (JObj kvs) = JObj (map (\<lambda>kv. (fst kv, serialised (snd kv))) kvs)"

text \<open>
  The two errors of the \<^verbatim>\<open>Response\<close> constructor, with the message texts of the fetch
  implementation of Node.js.
\<close>

definition status_range_error :: js_error where
  "status_range_error =
     JsError ''RangeError'' NoCode
       (''init['' @ [CHR 0x22] @ ''status'' @ [CHR 0x22]
        @ ''] must be in the range of 200 to 599, inclusive.'')
       None"

definition null_body_status_error :: "string \<Rightarrow> js_error" where
  "null_body_status_error s =
     JsError ''TypeError'' NoCode (''Response constructor: Invalid response status code '' @ s) None"

text \<open>
  \<^verbatim>\<open>NextResponse.json(data, { status })\<close>: the data is serialised and a \<^verbatim>\<open>Response\<close> is
  built around it. The constructor throws a \<^verbatim>\<open>RangeError\<close> for a status outside 200 to
  599 and a \<^verbatim>\<open>TypeError\<close> for a status that allows no body (204, 205, 304). Without
  \<^verbatim>\<open>{ status }\<close> the status is 200.
\<close>

definition NextResponse_json :: "json \<Rightarrow> nat \<Rightarrow> js_error + response" where
  "NextResponse_json data s =
     (if s < 200 \<or> 599 < s then Inl status_range_error
      else if s = 204 then Inl (null_body_status_error ''204'')
      else if s = 205 then Inl (null_body_status_error ''205'')
      else if s = 304 then Inl (null_body_status_error ''304'')
      else Inr \<lparr>status = s, body = serialised data\<rparr>)"

text \<open>The object literal \<^verbatim>\<open>{ error: msg }\<close>.\<close>

definition error_body :: "string \<Rightarrow> json" where
  "error_body msg = JObj [(''error'', JStr msg)]"

text \<open>
  The object literal \<^verbatim>\<open>{ success: true, response, usage }\<close>, without the property
  \<^verbatim>\<open>usage\<close> when its value is \<^verbatim>\<open>undefined\<close> (\<^verbatim>\<open>JSON.stringify\<close> drops such a property).
\<close>

definition success_body :: "json \<Rightarrow> json option \<Rightarrow> json" where
  "success_body r usage =
     JObj ([(''success'', JBool True), (''response'', r)]
           @ (case usage of None \<Rightarrow> [] | Some u \<Rightarrow> [(''usage'', u)]))"

text \<open>The call both variants send upstream (lines 51 to 64, and 26 to 39 of route.js).\<close>

definition upstream_call :: "env \<Rightarrow> string \<Rightarrow> json \<Rightarrow> fetch_request" where
  "upstream_call e apiKey message =
     \<lparr>url = ''https://openrouter.ai/api/v1/chat/completions'',
      http_method = ''POST'',
      headers =
        [(''Authorization'', ''Bearer '' @ apiKey),
         (''Content-Type'', ''application/json''),
         (''HTTP-Referer'', str_or (APP_URL e) ''http://localhost:3000''),
         (''X-Title'', str_or (APP_NAME e) ''FancyChat App'')],
      payload =
        \<lparr>model = ''openai/gpt-3.5-turbo'', messages = message,
         max_tokens = 1000, temperature = 7 / 10\<rparr>\<rparr>"

subsection \<open>Timers\<close>

text \<open>
  The part of the event loop that outlives a request: the timers that are scheduled and
  have neither run nor been cleared. A timer handle is a fresh object (always truthy).
\<close>

record world =
  next_timer :: nat
  pending :: "nat set"

definition setTimeout :: "world \<Rightarrow> nat \<times> world" where
  "setTimeout w =
     (next_timer w, w\<lparr>next_timer := Suc (next_timer w), pending := insert (next_timer w) (pending w)\<rparr>)"

definition clearTimeout :: "nat \<Rightarrow> world \<Rightarrow> world" where
  "clearTimeout t w = w\<lparr>pending := pending w - {t}\<rparr>"

text \<open>
  \<^verbatim>\<open>createTimeoutController(timeoutMs)\<close>: a controller whose signal aborts
  \<open>timeoutMs\<close> milliseconds from now, and the handle of the timer that will do it.
\<close>

record timeout_controller =
  abort_after :: nat
  timeoutId :: nat

definition createTimeoutController :: "nat \<Rightarrow> world \<Rightarrow> timeout_controller \<times> world" where
  "createTimeoutController timeoutMs w =
     (case setTimeout w of (t, w') \<Rightarrow> (\<lparr>abort_after = timeoutMs, timeoutId = t\<rparr>, w'))"

text \<open>The \<^verbatim>\<open>DOMException\<close> an aborted \<^verbatim>\<open>fetch\<close> rejects with (legacy code 20).\<close>

definition abort_error :: js_error where
  "abort_error = JsError ''AbortError'' (NumCode 20) ''This operation was aborted'' None"

text \<open>
  How the \<^verbatim>\<open>fetch\<close> of Node.js reports a connection that failed with the system error
  \<open>c\<close> (\<^verbatim>\<open>ECONNREFUSED\<close>, \<^verbatim>\<open>ENOTFOUND\<close>, \<^verbatim>\<open>ETIMEDOUT\<close>, ...): a \<^verbatim>\<open>TypeError\<close> with the
  message \<^verbatim>\<open>fetch failed\<close> and no \<^verbatim>\<open>code\<close> of its own, whose \<^verbatim>\<open>cause\<close> is the system
  error that carries the code.
\<close>

definition fetch_failed :: "string \<Rightarrow> js_error" where
  "fetch_failed c =
     JsError ''TypeError'' NoCode ''fetch failed''
       (Some (JsError ''Error'' (StrCode c) (''connect '' @ c) None))"

text \<open>
  \<^verbatim>\<open>await fetch(url, { ..., signal: controller.signal })\<close>: when the network settles
  before the timer runs, the promise settles the same way and the timer stays scheduled;
  otherwise the timer runs (and is no longer scheduled), the signal aborts and the
  promise rejects with the abort error.
\<close>

definition fetch_with_signal ::
  "fetch_outcome \<Rightarrow> timeout_controller \<Rightarrow> world \<Rightarrow> (js_error + upstream_response) \<times> world" where
  "fetch_with_signal outcome c w =
     (case outcome of
        Resolves t r \<Rightarrow>
          if t < abort_after c then (Inr r, w)
          else (Inl abort_error, w\<lparr>pending := pending w - {timeoutId c}\<rparr>)
      | Rejects t e \<Rightarrow>
          if t < abort_after c then (Inl e, w)
          else (Inl abort_error, w\<lparr>pending := pending w - {timeoutId c}\<rparr>)
      | Hangs \<Rightarrow> (Inl abort_error, w\<lparr>pending := pending w - {timeoutId c}\<rparr>))"

subsection \<open>The timeout-aware variant\<close>

text \<open>Lines 16 to 25: \<^verbatim>\<open>body = await request.json(); message = body.message\<close>.\<close>

definition read_message :: "request \<Rightarrow> js_error + json option" where
  "read_message req =
     (case req of Inl parseError \<Rightarrow> Inl parseError | Inr b \<Rightarrow> get_prop b ''message'')"

text \<open>Lines 67 to 101: the response for a rejected \<^verbatim>\<open>fetch\<close>.\<close>

definition fetch_error_response :: "js_error \<Rightarrow> js_error + response" where
  "fetch_error_response fetchError =
     (if err_name fetchError = ''AbortError'' then
        NextResponse_json (error_body ''Request timed out. Please try again.'') 408
      else if err_code fetchError = StrCode ''ECONNREFUSED''
              \<or> err_code fetchError = StrCode ''ENOTFOUND'' then
        NextResponse_json
          (error_body ''Unable to connect to AI service. Please try again later.'') 503
      else if err_code fetchError = StrCode ''ETIMEDOUT'' then
        NextResponse_json (error_body ''Connection timed out. Please try again.'') 504
      else
        NextResponse_json
          (error_body ''Network error occurred. Please check your connection and try again.'') 502)"

text \<open>
  Lines 107 to 147: the response for an upstream status outside 200 to 299. The text of
  the upstream body is read for the log only. The last call passes the upstream status
  on, and throws where that status is one the \<^verbatim>\<open>Response\<close> constructor refuses.
\<close>

definition upstream_error_response :: "upstream_response \<Rightarrow> js_error + response" where
  "upstream_error_response r =
     (let errorData = (case up_text r of Inl textError \<Rightarrow> ''Unable to read error response''
                                        | Inr t \<Rightarrow> t)
      in if up_status r = 401 then
           NextResponse_json (error_body ''Invalid API key. Please check your configuration.'') 401
         else if up_status r = 429 then
           NextResponse_json (error_body ''Rate limit exceeded. Please try again later.'') 429
         else if up_status r \<ge> 500 then
           NextResponse_json
             (error_body ''AI service is temporarily unavailable. Please try again later.'') 503
         else
           NextResponse_json (error_body ''Failed to get response from AI service'') (up_status r))"

text \<open>\<^verbatim>\<open>c?.message?.content\<close>, the expression both variants apply to \<^verbatim>\<open>data.choices[0]\<close>.\<close>

definition first_content :: "json option \<Rightarrow> json option" where
  "first_content c = opt_chain (opt_chain c ''message'') ''content''"

text \<open>\<^verbatim>\<open>v.length\<close>, read only where \<open>v\<close> is known to be an array.\<close>

fun array_length :: "json option \<Rightarrow> nat" where
  "array_length (Some (JArr xs)) = length xs"
| "array_length v = 0"

text \<open>
  Lines 150 to 175: the response for an upstream status in 200 to 299. Reading
  \<^verbatim>\<open>data.choices\<close> of a body that is \<^verbatim>\<open>null\<close> throws to the outer handler.
\<close>

definition success_response :: "upstream_response \<Rightarrow> js_error + response" where
  "success_response r =
     (case up_json r of
        Inl jsonError \<Rightarrow> NextResponse_json (error_body ''Invalid response from AI service'') 502
      | Inr data \<Rightarrow>
          (case get_prop data ''choices'' of
             Inl e \<Rightarrow> Inl e
           | Inr choices \<Rightarrow>
               if \<not> truthy_opt choices \<or> \<not> isArray choices \<or> array_length choices = 0 then
                 NextResponse_json (error_body ''Unexpected response format from AI service'') 502
               else
                 (case get_index0 choices of
                    Inl e \<Rightarrow> Inl e
                  | Inr c0 \<Rightarrow>
                      (case get_prop data ''usage'' of
                         Inl e \<Rightarrow> Inl e
                       | Inr usage \<Rightarrow>
                           NextResponse_json
                             (success_body (or_default (first_content c0)) usage) 200))))"

text \<open>
  Lines 35 to 175, reached once the request is validated: the check of the API key, the
  timer, the upstream call and the mapping of its outcome. The result is the response
  returned or the error thrown, the value of the variable \<^verbatim>\<open>timeoutId\<close> at that point,
  and the timers.
\<close>

definition POST_relay ::
  "env \<Rightarrow> json \<Rightarrow> fetch \<Rightarrow> world \<Rightarrow> (js_error + response) \<times> nat option \<times> world" where
  "POST_relay e message fetch w =
     (case OPENROUTER_API_KEY e of
        None \<Rightarrow> (NextResponse_json (error_body ''OpenRouter API key not configured'') 500, None, w)
      | Some apiKey \<Rightarrow>
          if apiKey = [] then
            (NextResponse_json (error_body ''OpenRouter API key not configured'') 500, None, w)
          else
            (case createTimeoutController 30000 w of
               (controller, w1) \<Rightarrow>
                 (case fetch_with_signal (fetch (upstream_call e apiKey message)) controller w1 of
                    (Inl fetchError, w2) \<Rightarrow>
                      (fetch_error_response fetchError, Some (timeoutId controller),
                       clearTimeout (timeoutId controller) w2)
                  | (Inr openRouterResponse, w2) \<Rightarrow>
                      (if \<not> ok openRouterResponse then
                         upstream_error_response openRouterResponse
                       else success_response openRouterResponse,
                       Some (timeoutId controller),
                       clearTimeout (timeoutId controller) w2))))"

text \<open>The body of the outer \<^verbatim>\<open>try\<close> (lines 13 to 176).\<close>

definition POST_try ::
  "env \<Rightarrow> request \<Rightarrow> fetch \<Rightarrow> world \<Rightarrow> (js_error + response) \<times> nat option \<times> world" where
  "POST_try e req fetch w =
     (case read_message req of
        Inl parseError \<Rightarrow>
          (NextResponse_json (error_body ''Invalid JSON in request body'') 400, None, w)
      | Inr message \<Rightarrow>
          if \<not> truthy_opt message \<or> \<not> isArray message then
            (NextResponse_json (error_body ''Invalid request. Expected {message: []} in body'') 400,
             None, w)
          else POST_relay e (the message) fetch w)"

text \<open>Lines 183 to 204: the response of the outer \<^verbatim>\<open>catch\<close>.\<close>

definition top_level_catch :: "js_error \<Rightarrow> js_error + response" where
  "top_level_catch error =
     (if err_name error = ''TypeError'' \<and> str_includes (err_message error) ''fetch'' then
        NextResponse_json
          (error_body ''Network error. Please check your internet connection.'') 502
      else if err_name error = ''SyntaxError'' then
        NextResponse_json (error_body ''Invalid response format received.'') 502
      else
        NextResponse_json (error_body ''An unexpected error occurred. Please try again.'') 500)"

text \<open>
  Lines 177 to 205: what the handler returns after the outer \<^verbatim>\<open>try\<close>. A thrown error
  reaches the \<^verbatim>\<open>catch\<close>, which clears the timer when \<^verbatim>\<open>timeoutId\<close> is set.
\<close>

definition POST_catch ::
  "(js_error + response) \<times> nat option \<times> world \<Rightarrow> (js_error + response) \<times> world" where
  "POST_catch x =
     (case x of
        (Inr resp, tid, w') \<Rightarrow> (Inr resp, w')
      | (Inl error, tid, w') \<Rightarrow>
          (top_level_catch error, (case tid of None \<Rightarrow> w' | Some t \<Rightarrow> clearTimeout t w')))"

text \<open>The handler (lines 10 to 206).\<close>

definition POST :: "env \<Rightarrow> request \<Rightarrow> fetch \<Rightarrow> world \<Rightarrow> (js_error + response) \<times> world" where
  "POST e req fetch w = POST_catch (POST_try e req fetch w)"

subsection \<open>The base variant\<close>

text \<open>
  \<^verbatim>\<open>const { message } = await request.json()\<close>: destructuring \<^verbatim>\<open>null\<close> throws,
  every other value is read like a property.
\<close>

definition destructure_message :: "request \<Rightarrow> js_error + json option" where
  "destructure_message req =
     (case req of Inl parseError \<Rightarrow> Inl parseError | Inr b \<Rightarrow> get_prop b ''message'')"

text \<open>Lines 52 to 60 of route.js: no check of \<^verbatim>\<open>data.choices\<close> before \<^verbatim>\<open>data.choices[0]\<close>.\<close>

definition route_success_response :: "upstream_response \<Rightarrow> js_error + response" where
  "route_success_response r =
     (case up_json r of
        Inl e \<Rightarrow> Inl e
      | Inr data \<Rightarrow>
          (case get_prop data ''choices'' of
             Inl e \<Rightarrow> Inl e
           | Inr choices \<Rightarrow>
               (case get_index0 choices of
                  Inl e \<Rightarrow> Inl e
                | Inr c0 \<Rightarrow>
                    (case get_prop data ''usage'' of
                       Inl e \<Rightarrow> Inl e
                     | Inr usage \<Rightarrow>
                         NextResponse_json
                           (success_body (or_default (first_content c0)) usage) 200))))"

text \<open>
  The body of the \<^verbatim>\<open>try\<close> of route.js (lines 4 to 61); \<open>None\<close> when the promise of
  \<^verbatim>\<open>fetch\<close> never settles, so that the handler never returns.
\<close>

definition route_POST_try :: "env \<Rightarrow> request \<Rightarrow> fetch \<Rightarrow> (js_error + response) option" where
  "route_POST_try e req fetch =
     (case destructure_message req of
        Inl error \<Rightarrow> Some (Inl error)
      | Inr message \<Rightarrow>
          if \<not> truthy_opt message \<or> \<not> isArray message then
            Some (NextResponse_json
                    (error_body ''Invalid request. Expected {message: []} in body'') 400)
          else
            (case OPENROUTER_API_KEY e of
               None \<Rightarrow>
                 Some (NextResponse_json (error_body ''OpenRouter API key not configured'') 500)
             | Some apiKey \<Rightarrow>
                 if apiKey = [] then
                   Some (NextResponse_json (error_body ''OpenRouter API key not configured'') 500)
                 else
                   (case fetch (upstream_call e apiKey (the message)) of
                      Hangs \<Rightarrow> None
                    | Rejects t error \<Rightarrow> Some (Inl error)
                    | Resolves t openRouterResponse \<Rightarrow>
                        if \<not> ok openRouterResponse then
                          (case up_text openRouterResponse of
                             Inl error \<Rightarrow> Some (Inl error)
                           | Inr errorData \<Rightarrow>
                               Some (NextResponse_json
                                       (error_body ''Failed to get response from AI service'')
                                       (up_status openRouterResponse)))
                        else Some (route_success_response openRouterResponse))))"

text \<open>The handler of route.js (lines 3 to 69): the \<^verbatim>\<open>try\<close> and its \<^verbatim>\<open>catch\<close>.\<close>

definition route_POST :: "env \<Rightarrow> request \<Rightarrow> fetch \<Rightarrow> (js_error + response) option" where
  "route_POST e req fetch =
     (case route_POST_try e req fetch of
        None \<Rightarrow> None
      | Some (Inr resp) \<Rightarrow> Some (Inr resp)
      | Some (Inl error) \<Rightarrow> Some (NextResponse_json (error_body ''Internal server error'') 500))"

subsection \<open>The mapping of a resolved upstream response, variant by variant\<close>

text \<open>
  The effect of the outer \<^verbatim>\<open>catch\<close> of each variant on what its \<^verbatim>\<open>try\<close> produced.
\<close>

definition caught :: "js_error + response \<Rightarrow> js_error + response" where
  "caught x = (case x of Inl error \<Rightarrow> top_level_catch error | Inr resp \<Rightarrow> Inr resp)"

definition route_caught :: "js_error + response \<Rightarrow> js_error + response" where
  "route_caught x =
     (case x of
        Inl error \<Rightarrow> NextResponse_json (error_body ''Internal server error'') 500
      | Inr resp \<Rightarrow> Inr resp)"

text \<open>
  What the base variant answers once \<^verbatim>\<open>fetch\<close> has resolved with \<open>r\<close> (lines 43 to 60 of
  route.js under its \<^verbatim>\<open>catch\<close>), and what the timeout-aware variant answers once
  \<^verbatim>\<open>fetch\<close> has resolved in time (lines 107 to 175 under the outer \<^verbatim>\<open>catch\<close>). The
  lemmas \<open>route_POST_valid\<close> and \<open>POST_relay_fst\<close> below show that the handlers compute
  exactly these.
\<close>

definition route_mapping :: "upstream_response \<Rightarrow> js_error + response" where
  "route_mapping r =
     route_caught
       (if \<not> ok r then
          (case up_text r of
             Inl err \<Rightarrow> Inl err
           | Inr errorData \<Rightarrow>
               NextResponse_json (error_body ''Failed to get response from AI service'')
                 (up_status r))
        else route_success_response r)"

definition aware_mapping :: "upstream_response \<Rightarrow> js_error + response" where
  "aware_mapping r =
     caught (if \<not> ok r then upstream_error_response r else success_response r)"

subsection \<open>Predicates used to state the properties\<close>

text \<open>The text \<open>k\<close> occurs in a string value somewhere inside a JSON value.\<close>

fun occurs_in :: "string \<Rightarrow> json \<Rightarrow> bool" where
  "occurs_in k JNull = False"
| "occurs_in k (JBool b) = False"
| "occurs_in k (JNum n) = False"
| "occurs_in k (JStr s) = str_includes s k"
| "occurs_in k (JArr xs) = list_ex (occurs_in k) xs"
| "occurs_in k (JObj kvs) = list_ex (\<lambda>kv. occurs_in k (snd kv)) kvs"

text \<open>
  The two shapes of a response: status 200 with a body that is exactly
  \<^verbatim>\<open>{ success: true, response: v }\<close> or \<^verbatim>\<open>{ success: true, response: v, usage: u }\<close>, or a
  status outside 200 to 299 with a body that is exactly \<^verbatim>\<open>{ error: m }\<close> for a string
  \<open>m\<close>.
\<close>

definition two_shapes :: "response \<Rightarrow> bool" where
  "two_shapes r =
     ((status r = 200 \<and>
        ((\<exists>v. body r = JObj [(''success'', JBool True), (''response'', v)])
         \<or> (\<exists>v u. body r = JObj [(''success'', JBool True), (''response'', v), (''usage'', u)])))
      \<or> ((status r < 200 \<or> 299 < status r) \<and> (\<exists>m. body r = JObj [(''error'', JStr m)])))"

text \<open>A handler result that is a response of one of the two shapes (and not a thrown error).\<close>

definition shaped :: "js_error + response \<Rightarrow> bool" where
  "shaped x = (case x of Inl err \<Rightarrow> False | Inr r \<Rightarrow> two_shapes r)"



subsection \<open>Concrete inputs\<close>

text \<open>
  An environment with a key, a request with one user message, an event loop with no
  timer, and stub networks: one that resolves after 120 ms with a given status and JSON
  body, one that rejects after 15 ms with a given error, and one that replies with the
  \<^verbatim>\<open>Authorization\<close> header it received as the content of its first choice.
\<close>

definition example_env :: env where
  "example_env = \<lparr>OPENROUTER_API_KEY = Some ''sk-test'', APP_URL = None, APP_NAME = None\<rparr>"

definition no_key_env :: env where
  "no_key_env = \<lparr>OPENROUTER_API_KEY = None, APP_URL = None, APP_NAME = None\<rparr>"

definition example_request :: request where
  "example_request =
     Inr (JObj [(''message'', JArr [JObj [(''role'', JStr ''user''), (''content'', JStr ''Hello'')]])])"

definition example_world :: world where
  "example_world = \<lparr>next_timer = 0, pending = {}\<rparr>"

definition syntax_error :: js_error where
  "syntax_error = JsError ''SyntaxError'' NoCode ''Unexpected end of JSON input'' None"

definition respond :: "nat \<Rightarrow> json \<Rightarrow> fetch" where
  "respond s data q =
     Resolves 120 \<lparr>up_status = s, up_statusText = [], up_text = Inr [], up_json = Inr data\<rparr>"

definition reject :: "js_error \<Rightarrow> fetch" where
  "reject err q = Rejects 15 err"

definition echo_fetch :: fetch where
  "echo_fetch q =
     Resolves 120
       \<lparr>up_status = 200, up_statusText = ''OK'', up_text = Inr [],
        up_json = Inr (JObj [(''choices'',
          JArr [JObj [(''message'',
            JObj [(''content'', JStr (case map_of (headers q) ''Authorization'' of
                                        None \<Rightarrow> [] | Some h \<Rightarrow> h))])]])])\<rparr>"

section \<open>Properties of the handlers\<close>

subsection \<open>Responses that are built\<close>

text \<open>
  An error body is written as it stands, and every status the handlers write as a literal
  is accepted by the \<^verbatim>\<open>Response\<close> constructor.
\<close>

lemma error_response:
  assumes "200 \<le> s" and "s \<le> 599" and "s \<noteq> 204" and "s \<noteq> 205" and "s \<noteq> 304"
  shows "NextResponse_json (error_body m) s = Inr \<lparr>status = s, body = JObj [(''error'', JStr m)]\<rparr>"
  using assms by (simp add: NextResponse_json_def error_body_def)

lemma success_response_built:
  "NextResponse_json (success_body v usage) 200 =
     Inr \<lparr>status = 200,
          body = JObj ([(''success'', JBool True), (''response'', serialised v)]
                       @ (case usage of None \<Rightarrow> [] | Some u \<Rightarrow> [(''usage'', serialised u)]))\<rparr>"
  by (cases usage) (simp_all add: NextResponse_json_def success_body_def)

lemma fetch_error_response_built:
  "fetch_error_response err =
     Inr (if err_name err = ''AbortError'' then
            \<lparr>status = 408,
             body = JObj [(''error'', JStr ''Request timed out. Please try again.'')]\<rparr>
          else if err_code err = StrCode ''ECONNREFUSED'' \<or> err_code err = StrCode ''ENOTFOUND'' then
            \<lparr>status = 503,
             body = JObj [(''error'',
               JStr ''Unable to connect to AI service. Please try again later.'')]\<rparr>
          else if err_code err = StrCode ''ETIMEDOUT'' then
            \<lparr>status = 504,
             body = JObj [(''error'', JStr ''Connection timed out. Please try again.'')]\<rparr>
          else
            \<lparr>status = 502,
             body = JObj [(''error'',
               JStr ''Network error occurred. Please check your connection and try again.'')]\<rparr>)"
  by (simp add: fetch_error_response_def error_response)

lemma timed_out_response:
  "fetch_error_response abort_error =
     Inr \<lparr>status = 408, body = JObj [(''error'', JStr ''Request timed out. Please try again.'')]\<rparr>"
  by (simp add: fetch_error_response_built abort_error_def)

lemma top_level_catch_built:
  "top_level_catch err =
     Inr (if err_name err = ''TypeError'' \<and> str_includes (err_message err) ''fetch'' then
            \<lparr>status = 502,
             body = JObj [(''error'', JStr ''Network error. Please check your internet connection.'')]\<rparr>
          else if err_name err = ''SyntaxError'' then
            \<lparr>status = 502, body = JObj [(''error'', JStr ''Invalid response format received.'')]\<rparr>
          else
            \<lparr>status = 500,
             body = JObj [(''error'', JStr ''An unexpected error occurred. Please try again.'')]\<rparr>)"
  by (simp add: top_level_catch_def error_response)

text \<open>The errors the handler itself can throw get the generic answer of the outer \<^verbatim>\<open>catch\<close>.\<close>

lemma caught_status_range_error:
  "top_level_catch status_range_error =
     Inr \<lparr>status = 500,
          body = JObj [(''error'', JStr ''An unexpected error occurred. Please try again.'')]\<rparr>"
  by (simp add: top_level_catch_built status_range_error_def)

lemma caught_null_body_status_error:
  "top_level_catch (null_body_status_error ''304'') =
     Inr \<lparr>status = 500,
          body = JObj [(''error'', JStr ''An unexpected error occurred. Please try again.'')]\<rparr>"
  by (simp add: top_level_catch_built null_body_status_error_def)


lemma caught_fetch_error: "caught (fetch_error_response err) = fetch_error_response err"
  by (simp add: caught_def fetch_error_response_built)

subsection \<open>The handler, path by path\<close>

text \<open>The three outcomes of reading \<^verbatim>\<open>message\<close> from the request.\<close>

lemma read_message_cases:
  obtains (unparsed) err where "read_message req = Inl err"
  | (invalid) m where "read_message req = Inr m" and "\<not> isArray m"
  | (valid) ms where "read_message req = Inr (Some (JArr ms))"
proof (cases "read_message req")
  case (Inl err)
  then show ?thesis by (rule unparsed)
next
  case (Inr m)
  show ?thesis
  proof (cases "isArray m")
    case True
    then obtain ms where "m = Some (JArr ms)"
      by (cases m rule: isArray.cases) auto
    with Inr show ?thesis by (simp add: valid)
  next
    case False
    with Inr show ?thesis by (rule invalid)
  qed
qed


lemma POST_unparsed:
  assumes "read_message req = Inl err"
  shows "POST e req fetch w =
           (Inr \<lparr>status = 400, body = JObj [(''error'', JStr ''Invalid JSON in request body'')]\<rparr>, w)"
  using assms by (simp add: POST_def POST_try_def POST_catch_def error_response)

lemma POST_invalid:
  assumes "read_message req = Inr m" and "\<not> isArray m"
  shows "POST e req fetch w =
           (Inr \<lparr>status = 400,
                 body = JObj [(''error'',
                   JStr ''Invalid request. Expected {message: []} in body'')]\<rparr>, w)"
  using assms by (simp add: POST_def POST_try_def POST_catch_def error_response)

lemma POST_valid:
  assumes "read_message req = Inr (Some (JArr ms))"
  shows "POST e req fetch w = POST_catch (POST_relay e (JArr ms) fetch w)"
  using assms by (simp add: POST_def POST_try_def)

lemma POST_relay_no_key:
  assumes "\<not> truthy_str (OPENROUTER_API_KEY e)"
  shows "POST_catch (POST_relay e m fetch w) =
           (Inr \<lparr>status = 500,
                 body = JObj [(''error'', JStr ''OpenRouter API key not configured'')]\<rparr>, w)"
  using assms
  by (cases "OPENROUTER_API_KEY e")
     (simp_all add: POST_relay_def POST_catch_def error_response)

text \<open>With a key configured, the answer is a function of the outcome of the upstream call.\<close>

lemma POST_relay_fst:
  assumes "OPENROUTER_API_KEY e = Some k" and "k \<noteq> []"
  shows "fst (POST_catch (POST_relay e m fetch w)) =
     (case fetch (upstream_call e k m) of
        Resolves t r \<Rightarrow>
          if t < 30000 then aware_mapping r else fetch_error_response abort_error
      | Rejects t err \<Rightarrow>
          if t < 30000 then fetch_error_response err else fetch_error_response abort_error
      | Hangs \<Rightarrow> fetch_error_response abort_error)"
proof -
  have c: "fst (POST_catch (x, tid, w')) = caught x" for x tid w'
    by (cases x) (simp_all add: POST_catch_def caught_def)
  show ?thesis
    using assms
    by (simp add: POST_relay_def c createTimeoutController_def setTimeout_def
        fetch_with_signal_def aware_mapping_def caught_fetch_error
        split: fetch_outcome.splits prod.splits)
qed

text \<open>The answer of the timeout-aware variant to an upstream status outside 200 to 299.\<close>

lemma aware_mapping_not_ok:
  assumes "\<not> ok r"
  shows "aware_mapping r =
     Inr (if up_status r = 401 then
            \<lparr>status = 401,
             body = JObj [(''error'', JStr ''Invalid API key. Please check your configuration.'')]\<rparr>
          else if up_status r = 429 then
            \<lparr>status = 429,
             body = JObj [(''error'', JStr ''Rate limit exceeded. Please try again later.'')]\<rparr>
          else if 500 \<le> up_status r then
            \<lparr>status = 503,
             body = JObj [(''error'',
               JStr ''AI service is temporarily unavailable. Please try again later.'')]\<rparr>
          else if up_status r = 304 \<or> up_status r < 200 then
            \<lparr>status = 500,
             body = JObj [(''error'', JStr ''An unexpected error occurred. Please try again.'')]\<rparr>
          else
            \<lparr>status = up_status r,
             body = JObj [(''error'', JStr ''Failed to get response from AI service'')]\<rparr>)"
proof -
  consider (a) "up_status r = 401" | (b) "up_status r = 429" | (c) "500 \<le> up_status r"
    | (d) "up_status r = 304" | (e) "up_status r < 200"
    | (f) "300 \<le> up_status r" "up_status r < 500" "up_status r \<noteq> 304" "up_status r \<noteq> 401"
          "up_status r \<noteq> 429"
    using assms by (auto simp add: ok_def) linarith
  then show ?thesis
  proof cases
    case a
    with assms show ?thesis
      by (simp add: aware_mapping_def upstream_error_response_def error_response caught_def)
  next
    case b
    with assms show ?thesis
      by (simp add: aware_mapping_def upstream_error_response_def error_response caught_def)
  next
    case c
    with assms show ?thesis
      by (simp add: aware_mapping_def upstream_error_response_def error_response caught_def)
  next
    case d
    with assms show ?thesis
      by (simp add: aware_mapping_def upstream_error_response_def NextResponse_json_def
          caught_def caught_null_body_status_error)
  next
    case e
    with assms show ?thesis
      by (simp add: aware_mapping_def upstream_error_response_def NextResponse_json_def
          caught_def caught_status_range_error)
  next
    case f
    with assms show ?thesis
      by (simp add: aware_mapping_def upstream_error_response_def error_response caught_def)
  qed
qed


lemma success_response_valid:
  assumes "up_json r = Inr (JObj kvs)" and "map_of kvs ''choices'' = Some (JArr (c # cs))"
  shows "success_response r =
     Inr \<lparr>status = 200,
          body = JObj ([(''success'', JBool True),
                        (''response'', serialised (or_default (first_content (Some c))))]
                       @ (case map_of kvs ''usage'' of
                            None \<Rightarrow> [] | Some u \<Rightarrow> [(''usage'', serialised u)]))\<rparr>"
  using assms by (simp add: success_response_def success_response_built)


text \<open>On a body with a non-empty \<^verbatim>\<open>choices\<close> array the two variants compute the same answer.\<close>

lemma success_paths_agree:
  assumes "up_json r = Inr (JObj kvs)" and "map_of kvs ''choices'' = Some (JArr (c # cs))"
  shows "route_success_response r = success_response r"
  using assms by (simp add: route_success_response_def success_response_def)

text \<open>The base variant, path by path.\<close>

lemma route_POST_unparsed:
  assumes "read_message req = Inl err"
  shows "route_POST e req fetch =
           Some (Inr \<lparr>status = 500, body = JObj [(''error'', JStr ''Internal server error'')]\<rparr>)"
  using assms
  by (simp add: route_POST_def route_POST_try_def destructure_message_def read_message_def
      error_response)

lemma route_POST_invalid:
  assumes "read_message req = Inr m" and "\<not> isArray m"
  shows "route_POST e req fetch =
           Some (Inr \<lparr>status = 400,
             body = JObj [(''error'', JStr ''Invalid request. Expected {message: []} in body'')]\<rparr>)"
  using assms
  by (simp add: route_POST_def route_POST_try_def destructure_message_def read_message_def
      error_response)

lemma route_POST_no_key:
  assumes "read_message req = Inr (Some (JArr ms))" and "\<not> truthy_str (OPENROUTER_API_KEY e)"
  shows "route_POST e req fetch =
           Some (Inr \<lparr>status = 500,
                      body = JObj [(''error'', JStr ''OpenRouter API key not configured'')]\<rparr>)"
  using assms
  by (cases "OPENROUTER_API_KEY e")
     (simp_all add: route_POST_def route_POST_try_def destructure_message_def read_message_def
      error_response)

lemma route_POST_valid:
  assumes "read_message req = Inr (Some (JArr ms))"
    and "OPENROUTER_API_KEY e = Some k" and "k \<noteq> []"
  shows "route_POST e req fetch =
     (case fetch (upstream_call e k (JArr ms)) of
        Hangs \<Rightarrow> None
      | Rejects t err \<Rightarrow>
          Some (Inr \<lparr>status = 500, body = JObj [(''error'', JStr ''Internal server error'')]\<rparr>)
      | Resolves t r \<Rightarrow> Some (route_mapping r))"
  using assms
  by (simp add: route_POST_def route_POST_try_def destructure_message_def read_message_def
      route_mapping_def route_caught_def error_response
      split: fetch_outcome.splits sum.splits)

lemma route_mapping_not_ok:
  assumes "\<not> ok r"
  shows "route_mapping r =
     Inr (case up_text r of
            Inl err \<Rightarrow> \<lparr>status = 500, body = JObj [(''error'', JStr ''Internal server error'')]\<rparr>
          | Inr errorData \<Rightarrow>
              if up_status r = 304 \<or> up_status r < 200 \<or> 599 < up_status r then
                \<lparr>status = 500, body = JObj [(''error'', JStr ''Internal server error'')]\<rparr>
              else
                \<lparr>status = up_status r,
                 body = JObj [(''error'', JStr ''Failed to get response from AI service'')]\<rparr>)"
proof (cases "up_text r")
  case (Inl err)
  with assms show ?thesis by (simp add: route_mapping_def route_caught_def error_response)
next
  case (Inr errorData)
  consider (bad) "up_status r = 304 \<or> up_status r < 200 \<or> 599 < up_status r"
    | (good) "300 \<le> up_status r" "up_status r \<le> 599" "up_status r \<noteq> 304"
    using assms by (auto simp add: ok_def) linarith
  then show ?thesis
  proof cases
    case bad
    with assms Inr show ?thesis
      by (auto simp add: route_mapping_def route_caught_def NextResponse_json_def error_body_def)
  next
    case good
    with assms Inr show ?thesis
      by (simp add: route_mapping_def route_caught_def error_response)
  qed
qed

lemma route_success_response_cases:
  obtains (throws) err where "route_success_response r = Inl err"
  | (success) v usage where
      "route_success_response r =
         Inr \<lparr>status = 200,
              body = JObj ([(''success'', JBool True), (''response'', serialised v)]
                           @ (case usage of None \<Rightarrow> [] | Some u \<Rightarrow> [(''usage'', serialised u)]))\<rparr>"
proof (cases "route_success_response r")
  case (Inl err)
  then show ?thesis by (rule throws)
next
  case (Inr resp)
  then show ?thesis
    by (auto simp add: route_success_response_def success_response_built
        split: sum.splits intro: success)
qed

lemma route_mapping_ok_cases:
  assumes "ok r"
  obtains (internal) "route_mapping r =
      Inr \<lparr>status = 500, body = JObj [(''error'', JStr ''Internal server error'')]\<rparr>"
  | (success) v usage where
      "route_mapping r =
         Inr \<lparr>status = 200,
              body = JObj ([(''success'', JBool True), (''response'', serialised v)]
                           @ (case usage of None \<Rightarrow> [] | Some u \<Rightarrow> [(''usage'', serialised u)]))\<rparr>"
proof (cases r rule: route_success_response_cases)
  case (throws err)
  with assms have "route_mapping r =
      Inr \<lparr>status = 500, body = JObj [(''error'', JStr ''Internal server error'')]\<rparr>"
    by (simp add: route_mapping_def route_caught_def error_response)
  then show ?thesis by (rule internal)
next
  case (success v usage)
  with assms show ?thesis
    by (intro that(2) [of v usage]) (simp add: route_mapping_def route_caught_def)
qed

text \<open>The handlers at the concrete inputs.\<close>

lemma example_request_message:
  "read_message example_request =
     Inr (Some (JArr [JObj [(''role'', JStr ''user''), (''content'', JStr ''Hello'')]]))"
  by (simp add: read_message_def example_request_def)

lemma example_env_key: "OPENROUTER_API_KEY example_env = Some ''sk-test''"
  by (simp add: example_env_def)

lemma example_POST:
  "fst (POST example_env example_request fetch w) =
     (case fetch (upstream_call example_env ''sk-test''
                    (JArr [JObj [(''role'', JStr ''user''), (''content'', JStr ''Hello'')]])) of
        Resolves t r \<Rightarrow>
          if t < 30000 then aware_mapping r else fetch_error_response abort_error
      | Rejects t err \<Rightarrow>
          if t < 30000 then fetch_error_response err else fetch_error_response abort_error
      | Hangs \<Rightarrow> fetch_error_response abort_error)"
  by (simp add: POST_valid [OF example_request_message] POST_relay_fst [OF example_env_key])

subsection \<open>Successful upstream responses\<close>

text \<open>
  Claim C1, as amended. When the request is valid, the key is configured and the upstream
  call resolves before the deadline with a status in 200 to 299 and a JSON object whose
  \<^verbatim>\<open>choices\<close> is a non-empty array, the handler answers with status 200 and the body
  \<^verbatim>\<open>{ success: true, response, usage }\<close>. Here \<^verbatim>\<open>response\<close> is
  \<^verbatim>\<open>choices[0]?.message?.content\<close> as serialised when that value is truthy, and the
  literal \<^verbatim>\<open>"No response generated"\<close> when it is absent or falsy (\<^verbatim>\<open>null\<close>, \<^verbatim>\<open>false\<close>, 0 or
  the empty string); \<^verbatim>\<open>usage\<close> is the upstream \<^verbatim>\<open>usage\<close> as serialised, and is left out
  when the upstream body has none. Serialising changes a value in one way only: an
  infinite number (the content \<^verbatim>\<open>1e400\<close>) is written \<^verbatim>\<open>null\<close>. The base variant gives the
  same answer.
\<close>

theorem success_response_mapping:
  assumes "read_message req = Inr (Some (JArr ms))"
    and "OPENROUTER_API_KEY e = Some k" and "k \<noteq> []"
    and "fetch (upstream_call e k (JArr ms)) = Resolves t r" and "t < 30000"
    and "ok r" and "up_json r = Inr (JObj kvs)"
    and "map_of kvs ''choices'' = Some (JArr (c # cs))"
  shows "fst (POST e req fetch w) =
           Inr \<lparr>status = 200,
            body = JObj ([(''success'', JBool True),
                          (''response'',
                             serialised
                               (case first_content (Some c) of
                                  None \<Rightarrow> JStr ''No response generated''
                                | Some v \<Rightarrow>
                                    if truthy v then v else JStr ''No response generated''))]
                         @ (case map_of kvs ''usage'' of
                              None \<Rightarrow> [] | Some u \<Rightarrow> [(''usage'', serialised u)]))\<rparr>
         \<and> route_POST e req fetch = Some (fst (POST e req fetch w))"
proof -
  note s = success_response_valid [OF assms(7,8)]
  have "route_success_response r = success_response r"
    using assms(7,8) by (rule success_paths_agree)
  with s assms(1-6) show ?thesis
    by (simp add: POST_valid POST_relay_fst route_POST_valid aware_mapping_def route_mapping_def
        caught_def route_caught_def or_default_def)
qed

text \<open>
  The example of the specification (content \<^verbatim>\<open>"Hi there"\<close> and a usage object), and the
  content \<^verbatim>\<open>1e400\<close>, which is truthy and reaches the caller as \<^verbatim>\<open>null\<close>.
\<close>

theorem success_response_mapping_witness:
  "fst (POST example_env example_request
          (respond 200 (JObj [(''choices'',
               JArr [JObj [(''message'', JObj [(''content'', JStr ''Hi there'')])]]),
             (''usage'', JObj [(''total_tokens'', JNum (Finite 5))])]))
          example_world)
     = Inr \<lparr>status = 200,
        body = JObj [(''success'', JBool True), (''response'', JStr ''Hi there''),
                     (''usage'', JObj [(''total_tokens'', JNum (Finite 5))])]\<rparr>
   \<and> fst (POST example_env example_request
          (respond 200 (JObj [(''choices'',
               JArr [JObj [(''message'', JObj [(''content'', JNum PosInfinity)])]])]))
          example_world)
     = Inr \<lparr>status = 200,
        body = JObj [(''success'', JBool True), (''response'', JNull)]\<rparr>"
  using
    success_response_mapping
    [where e = example_env and req = example_request and w = example_world
       and k = "''sk-test''"
       and ms = "[JObj [(''role'', JStr ''user''), (''content'', JStr ''Hello'')]]"
       and fetch = "respond 200 (JObj [(''choices'',
               JArr [JObj [(''message'', JObj [(''content'', JStr ''Hi there'')])]]),
             (''usage'', JObj [(''total_tokens'', JNum (Finite 5))])])"
       and t = 120
       and r = "\<lparr>up_status = 200, up_statusText = [], up_text = Inr [],
                up_json = Inr (JObj [(''choices'',
               JArr [JObj [(''message'', JObj [(''content'', JStr ''Hi there'')])]]),
             (''usage'', JObj [(''total_tokens'', JNum (Finite 5))])])\<rparr>"
       and kvs = "[(''choices'',
               JArr [JObj [(''message'', JObj [(''content'', JStr ''Hi there'')])]]),
             (''usage'', JObj [(''total_tokens'', JNum (Finite 5))])]"
       and c = "JObj [(''message'', JObj [(''content'', JStr ''Hi there'')])]"
       and cs = "[]"]
    success_response_mapping
    [where e = example_env and req = example_request and w = example_world
       and k = "''sk-test''"
       and ms = "[JObj [(''role'', JStr ''user''), (''content'', JStr ''Hello'')]]"
       and fetch = "respond 200 (JObj [(''choices'',
               JArr [JObj [(''message'', JObj [(''content'', JNum PosInfinity)])]])])"
       and t = 120
       and r = "\<lparr>up_status = 200, up_statusText = [], up_text = Inr [],
                up_json = Inr (JObj [(''choices'',
               JArr [JObj [(''message'', JObj [(''content'', JNum PosInfinity)])]])])\<rparr>"
       and kvs = "[(''choices'',
               JArr [JObj [(''message'', JObj [(''content'', JNum PosInfinity)])]])]"
       and c = "JObj [(''message'', JObj [(''content'', JNum PosInfinity)])]"
       and cs = "[]"]
  by (simp add: example_request_message example_env_key respond_def ok_def first_content_def)

text \<open>
  Claim C1 as stated fails: a content field that is present and holds the empty string
  is replaced by the literal.
\<close>

theorem empty_content_counterexample:
  "first_content (Some (JObj [(''message'', JObj [(''content'', JStr [])])])) = Some (JStr [])
   \<and> fst (POST example_env example_request
            (respond 200 (JObj [(''choices'',
               JArr [JObj [(''message'', JObj [(''content'', JStr [])])]])]))
            example_world)
       = Inr \<lparr>status = 200,
          body = JObj [(''success'', JBool True), (''response'', JStr ''No response generated'')]\<rparr>"
  by (simp add: example_POST respond_def ok_def aware_mapping_def caught_def
      success_response_def success_response_built first_content_def or_default_def)

subsection \<open>Upstream error statuses\<close>

text \<open>
  Claim C2: the answer to an upstream status outside 200 to 299, for a valid request, a
  configured key and an upstream call that resolves before the deadline. The handler
  answers 401 with the invalid-key message for 401, 429 with the rate-limit message for
  429, 503 with the unavailable message for every status from 500 on, and passes every
  other status on with the generic message, as the claim says, with one exception: for
  the upstream status 304 the call \<^verbatim>\<open>NextResponse.json(..., { status: 304 })\<close> at line 143
  throws (a 304 response cannot carry a body) and the outer \<^verbatim>\<open>catch\<close> answers 500 with
  \<^verbatim>\<open>"An unexpected error occurred. Please try again."\<close>, where the claim asks for 304 with
  the generic message. (A status below 200, which \<^verbatim>\<open>fetch\<close> does not deliver, would end
  the same way.) The answer depends on the upstream status alone: the text of the upstream
  body (\<open>up_text r\<close>) never reaches it.
\<close>

theorem upstream_status_mapping:
  assumes "read_message req = Inr (Some (JArr ms))"
    and "OPENROUTER_API_KEY e = Some k" and "k \<noteq> []"
    and "fetch (upstream_call e k (JArr ms)) = Resolves t r" and "t < 30000"
    and "\<not> ok r"
  shows "fst (POST e req fetch w) =
     Inr (if up_status r = 401 then
            \<lparr>status = 401,
             body = JObj [(''error'', JStr ''Invalid API key. Please check your configuration.'')]\<rparr>
          else if up_status r = 429 then
            \<lparr>status = 429,
             body = JObj [(''error'', JStr ''Rate limit exceeded. Please try again later.'')]\<rparr>
          else if 500 \<le> up_status r then
            \<lparr>status = 503,
             body = JObj [(''error'',
               JStr ''AI service is temporarily unavailable. Please try again later.'')]\<rparr>
          else if up_status r = 304 \<or> up_status r < 200 then
            \<lparr>status = 500,
             body = JObj [(''error'', JStr ''An unexpected error occurred. Please try again.'')]\<rparr>
          else
            \<lparr>status = up_status r,
             body = JObj [(''error'', JStr ''Failed to get response from AI service'')]\<rparr>)"
  using assms by (simp add: POST_valid POST_relay_fst aware_mapping_not_ok)

text \<open>The upstream status 304, and the status 418 of the specification.\<close>

theorem upstream_status_mapping_witness:
  "fst (POST example_env example_request (respond 304 JNull) example_world)
     = Inr \<lparr>status = 500,
            body = JObj [(''error'', JStr ''An unexpected error occurred. Please try again.'')]\<rparr>
   \<and> fst (POST example_env example_request (respond 418 JNull) example_world)
     = Inr \<lparr>status = 418,
            body = JObj [(''error'', JStr ''Failed to get response from AI service'')]\<rparr>"
  using
    upstream_status_mapping
    [where e = example_env and req = example_request and w = example_world
       and k = "''sk-test''"
       and ms = "[JObj [(''role'', JStr ''user''), (''content'', JStr ''Hello'')]]"
       and fetch = "respond 304 JNull" and t = 120
       and r = "\<lparr>up_status = 304, up_statusText = [], up_text = Inr [], up_json = Inr JNull\<rparr>"]
    upstream_status_mapping
    [where e = example_env and req = example_request and w = example_world
       and k = "''sk-test''"
       and ms = "[JObj [(''role'', JStr ''user''), (''content'', JStr ''Hello'')]]"
       and fetch = "respond 418 JNull" and t = 120
       and r = "\<lparr>up_status = 418, up_statusText = [], up_text = Inr [], up_json = Inr JNull\<rparr>"]
  by (simp add: example_request_message example_env_key respond_def ok_def)

subsection \<open>Transport failures and the deadline\<close>

text \<open>
  Lines 67 to 101 for every outcome of the upstream call, with a valid request and a
  configured key. When the call has not settled after 30000 ms (it hangs, or would
  resolve or reject later) the timer aborts it and the handler answers 408 with
  \<^verbatim>\<open>"Request timed out. Please try again."\<close>. When the call rejects earlier, an error
  whose own \<^verbatim>\<open>code\<close> is \<^verbatim>\<open>ECONNREFUSED\<close> or \<^verbatim>\<open>ENOTFOUND\<close> gives 503, one whose own
  \<^verbatim>\<open>code\<close> is \<^verbatim>\<open>ETIMEDOUT\<close> gives 504, and every other error gives 502 with the generic
  network message; an error named \<^verbatim>\<open>AbortError\<close> is answered with 408 whenever it arrives.
\<close>

lemma transport_failure_mapping:
  assumes "read_message req = Inr (Some (JArr ms))"
    and "OPENROUTER_API_KEY e = Some k" and "k \<noteq> []"
  shows "case fetch (upstream_call e k (JArr ms)) of
           Hangs \<Rightarrow>
             fst (POST e req fetch w) =
               Inr \<lparr>status = 408,
                    body = JObj [(''error'', JStr ''Request timed out. Please try again.'')]\<rparr>
         | Resolves t r \<Rightarrow>
             t < 30000 \<or>
             fst (POST e req fetch w) =
               Inr \<lparr>status = 408,
                    body = JObj [(''error'', JStr ''Request timed out. Please try again.'')]\<rparr>
         | Rejects t err \<Rightarrow>
             fst (POST e req fetch w) =
               Inr (if 30000 \<le> t \<or> err_name err = ''AbortError'' then
                  \<lparr>status = 408,
                   body = JObj [(''error'', JStr ''Request timed out. Please try again.'')]\<rparr>
                else if err_code err = StrCode ''ECONNREFUSED'' \<or> err_code err = StrCode ''ENOTFOUND'' then
                  \<lparr>status = 503,
                   body = JObj [(''error'',
                     JStr ''Unable to connect to AI service. Please try again later.'')]\<rparr>
                else if err_code err = StrCode ''ETIMEDOUT'' then
                  \<lparr>status = 504,
                   body = JObj [(''error'', JStr ''Connection timed out. Please try again.'')]\<rparr>
                else
                  \<lparr>status = 502,
                   body = JObj [(''error'',
                     JStr ''Network error occurred. Please check your connection and try again.'')]\<rparr>)"
proof (cases "fetch (upstream_call e k (JArr ms))")
  case (Resolves t r)
  with assms show ?thesis
    by (simp add: POST_valid POST_relay_fst timed_out_response)
next
  case (Rejects t err)
  with assms show ?thesis
    by (simp add: POST_valid POST_relay_fst fetch_error_response_built abort_error_def)
next
  case Hangs
  with assms show ?thesis
    by (simp add: POST_valid POST_relay_fst timed_out_response)
qed

text \<open>
  Claim C3: what the handler answers to a failed connection. The \<^verbatim>\<open>fetch\<close> of Node.js
  rejects with a \<^verbatim>\<open>TypeError\<close> that has no \<^verbatim>\<open>code\<close> of its own and carries the system
  error, with its code, as \<^verbatim>\<open>cause\<close>. Lines 79 and 87 read \<^verbatim>\<open>fetchError.code\<close>, so a
  refused connection, an unknown host and a connection timeout all fall through to the
  last branch: the handler answers 502 with the generic network message, where the claim
  asks for 503 and 504.
\<close>

theorem connection_failures_get_502:
  assumes "read_message req = Inr (Some (JArr ms))"
    and "OPENROUTER_API_KEY e = Some k" and "k \<noteq> []"
    and "fetch (upstream_call e k (JArr ms)) = Rejects t (fetch_failed c)" and "t < 30000"
  shows "fst (POST e req fetch w) =
           Inr \<lparr>status = 502,
                body = JObj [(''error'',
                  JStr ''Network error occurred. Please check your connection and try again.'')]\<rparr>"
  using assms
  by (simp add: POST_valid POST_relay_fst fetch_error_response_built fetch_failed_def)

theorem connection_failures_get_502_witness:
  "fst (POST example_env example_request (reject (fetch_failed ''ECONNREFUSED'')) example_world)
     = Inr \<lparr>status = 502,
            body = JObj [(''error'',
              JStr ''Network error occurred. Please check your connection and try again.'')]\<rparr>
   \<and> fst (POST example_env example_request (reject (fetch_failed ''ETIMEDOUT'')) example_world)
     = Inr \<lparr>status = 502,
            body = JObj [(''error'',
              JStr ''Network error occurred. Please check your connection and try again.'')]\<rparr>"
  using
    connection_failures_get_502
    [where e = example_env and req = example_request and w = example_world
       and k = "''sk-test''"
       and ms = "[JObj [(''role'', JStr ''user''), (''content'', JStr ''Hello'')]]"
       and fetch = "reject (fetch_failed ''ECONNREFUSED'')" and t = 15 and c = "''ECONNREFUSED''"]
    connection_failures_get_502
    [where e = example_env and req = example_request and w = example_world
       and k = "''sk-test''"
       and ms = "[JObj [(''role'', JStr ''user''), (''content'', JStr ''Hello'')]]"
       and fetch = "reject (fetch_failed ''ETIMEDOUT'')" and t = 15 and c = "''ETIMEDOUT''"]
  by (simp add: example_request_message example_env_key reject_def)

subsection \<open>Validation of the request\<close>

text \<open>
  Lines 16 to 33 for every request: the answer to a body that does not parse, to the body
  \<^verbatim>\<open>null\<close>, to a body without an array as \<^verbatim>\<open>message\<close>, and the hand-over to the next
  stage for a body whose \<^verbatim>\<open>message\<close> is an array, the empty array included.
\<close>

lemma request_validation:
  "fst (POST e req fetch w) =
     (case req of
        Inl parseError \<Rightarrow>
          Inr \<lparr>status = 400, body = JObj [(''error'', JStr ''Invalid JSON in request body'')]\<rparr>
      | Inr JNull \<Rightarrow>
          Inr \<lparr>status = 400, body = JObj [(''error'', JStr ''Invalid JSON in request body'')]\<rparr>
      | Inr (JObj kvs) \<Rightarrow>
          (case map_of kvs ''message'' of
             Some (JArr ms) \<Rightarrow> fst (POST_catch (POST_relay e (JArr ms) fetch w))
           | _ \<Rightarrow>
               Inr \<lparr>status = 400,
                body = JObj [(''error'', JStr ''Invalid request. Expected {message: []} in body'')]\<rparr>)
      | Inr b \<Rightarrow>
          Inr \<lparr>status = 400,
           body = JObj [(''error'', JStr ''Invalid request. Expected {message: []} in body'')]\<rparr>)"
  by (simp add: POST_def POST_try_def POST_catch_def read_message_def error_response
      split: sum.splits json.splits option.splits)

text \<open>
  Claim C4: the body \<^verbatim>\<open>null\<close> parses and has no \<^verbatim>\<open>message\<close> field, but reading
  \<^verbatim>\<open>body.message\<close> throws inside the \<^verbatim>\<open>try\<close> of the parse, whose \<^verbatim>\<open>catch\<close> (it names the
  error \<^verbatim>\<open>parseError\<close> and logs a JSON parse error) answers 400 with
  \<^verbatim>\<open>"Invalid JSON in request body"\<close>. The claim asks for
  \<^verbatim>\<open>"Invalid request. Expected {message: []} in body"\<close>, which every other body without a
  \<^verbatim>\<open>message\<close> gets: the empty object, an array, a number.
\<close>

theorem null_body_answer:
  "fst (POST e (Inr JNull) fetch w)
     = Inr \<lparr>status = 400, body = JObj [(''error'', JStr ''Invalid JSON in request body'')]\<rparr>
   \<and> fst (POST e (Inr (JObj [])) fetch w)
     = Inr \<lparr>status = 400,
            body = JObj [(''error'', JStr ''Invalid request. Expected {message: []} in body'')]\<rparr>
   \<and> fst (POST e (Inr (JArr [])) fetch w)
     = Inr \<lparr>status = 400,
            body = JObj [(''error'', JStr ''Invalid request. Expected {message: []} in body'')]\<rparr>
   \<and> fst (POST e (Inr (JNum (Finite 5))) fetch w)
     = Inr \<lparr>status = 400,
            body = JObj [(''error'', JStr ''Invalid request. Expected {message: []} in body'')]\<rparr>"
  by (simp add: POST_unparsed POST_invalid read_message_def)

subsection \<open>The missing API key\<close>

text \<open>
  Claim C5, as amended. When the request passes validation and the key
  \<^verbatim>\<open>OPENROUTER_API_KEY\<close> is absent or empty, the handler answers 500 with
  \<^verbatim>\<open>"OpenRouter API key not configured"\<close>, whatever the network would do. (An invalid
  request is answered with the 400 of validation first, key or no key.)
\<close>

theorem missing_api_key:
  assumes "read_message req = Inr (Some (JArr ms))"
    and "\<not> truthy_str (OPENROUTER_API_KEY e)"
  shows "fst (POST e req fetch w) =
           Inr \<lparr>status = 500,
                body = JObj [(''error'', JStr ''OpenRouter API key not configured'')]\<rparr>"
  using assms by (simp add: POST_valid POST_relay_no_key)

theorem missing_api_key_witness:
  "fst (POST no_key_env example_request (respond 200 JNull) example_world)
     = Inr \<lparr>status = 500,
            body = JObj [(''error'', JStr ''OpenRouter API key not configured'')]\<rparr>"
  using missing_api_key
    [where e = no_key_env and req = example_request and w = example_world
       and ms = "[JObj [(''role'', JStr ''user''), (''content'', JStr ''Hello'')]]"
       and fetch = "respond 200 JNull"]
  by (simp add: example_request_message no_key_env_def)

text \<open>
  Claim C5 as stated fails: without a key, a body that does not parse and a body whose
  \<^verbatim>\<open>message\<close> is a string are both answered with 400.
\<close>

theorem missing_key_invalid_body_counterexample:
  "OPENROUTER_API_KEY no_key_env = None
   \<and> fst (POST no_key_env (Inl syntax_error) (respond 200 JNull) example_world)
     = Inr \<lparr>status = 400, body = JObj [(''error'', JStr ''Invalid JSON in request body'')]\<rparr>
   \<and> fst (POST no_key_env (Inr (JObj [(''message'', JStr ''hi'')])) (respond 200 JNull) example_world)
     = Inr \<lparr>status = 400,
        body = JObj [(''error'', JStr ''Invalid request. Expected {message: []} in body'')]\<rparr>"
  by (simp add: POST_unparsed POST_invalid read_message_def no_key_env_def)

subsection \<open>The deadline timer\<close>

text \<open>
  Claim C6. Whenever the handler creates the deadline timer (the request is valid and the
  key is configured), the timer is scheduled by \<^verbatim>\<open>createTimeoutController\<close> and is no
  longer scheduled when the handler returns, whatever the network does: a response, a
  rejection, a hang, or a response whose body makes the handler throw to its outer
  \<^verbatim>\<open>catch\<close>. The timers scheduled after the request are those scheduled before it.
\<close>

theorem timer_always_cleared:
  assumes "read_message req = Inr (Some (JArr ms))"
    and "truthy_str (OPENROUTER_API_KEY e)"
  shows "timeoutId (fst (createTimeoutController 30000 w))
           \<in> pending (snd (createTimeoutController 30000 w))
         \<and> timeoutId (fst (createTimeoutController 30000 w))
             \<notin> pending (snd (POST e req fetch w))
         \<and> pending (snd (POST e req fetch w))
             = pending w - {timeoutId (fst (createTimeoutController 30000 w))}"
  using assms
  by (cases "OPENROUTER_API_KEY e")
     (auto simp add: POST_valid POST_relay_def POST_catch_def createTimeoutController_def
      setTimeout_def clearTimeout_def fetch_with_signal_def
      split: fetch_outcome.splits sum.splits prod.splits)

text \<open>
  Two runs from an event loop with no timer: an upstream body \<^verbatim>\<open>null\<close>, which throws to
  the outer \<^verbatim>\<open>catch\<close>, and a call that hangs until the timer fires.
\<close>

theorem timer_always_cleared_witness:
  "timeoutId (fst (createTimeoutController 30000 example_world)) = 0
   \<and> pending (snd (createTimeoutController 30000 example_world)) = {0}
   \<and> pending (snd (POST example_env example_request (respond 200 JNull) example_world)) = {}
   \<and> pending (snd (POST example_env example_request (\<lambda>q. Hangs) example_world)) = {}"
  using
    timer_always_cleared
      [where e = example_env and req = example_request and w = example_world
         and ms = "[JObj [(''role'', JStr ''user''), (''content'', JStr ''Hello'')]]"
         and fetch = "respond 200 JNull"]
    timer_always_cleared
      [where e = example_env and req = example_request and w = example_world
         and ms = "[JObj [(''role'', JStr ''user''), (''content'', JStr ''Hello'')]]"
         and fetch = "\<lambda>q. Hangs"]
  by (simp add: example_request_message example_env_key example_world_def
      createTimeoutController_def setTimeout_def)

subsection \<open>The two variants compared\<close>













subsection \<open>The shape of every response\<close>

lemma shaped_error:
  assumes "s < 200 \<or> 299 < s"
  shows "shaped (Inr \<lparr>status = s, body = JObj [(''error'', JStr m)]\<rparr>)"
  using assms by (simp add: shaped_def two_shapes_def)

lemma shaped_success:
  "shaped (Inr \<lparr>status = 200,
                body = JObj ((''success'', JBool True) # (''response'', v)
                             # (case usage of None \<Rightarrow> [] | Some u \<Rightarrow> [(''usage'', f u)]))\<rparr>)"
  by (cases usage) (simp_all add: shaped_def two_shapes_def)

lemma shaped_fetch_error: "shaped (fetch_error_response err)"
  by (simp add: fetch_error_response_built shaped_error)

lemma shaped_top_level_catch: "shaped (top_level_catch err)"
  by (simp add: top_level_catch_built shaped_error)

lemma shaped_aware_mapping: "shaped (aware_mapping r)"
proof (cases "ok r")
  case False
  then show ?thesis by (auto simp add: aware_mapping_not_ok shaped_error ok_def)
next
  case True
  show ?thesis
  proof (cases "success_response r")
    case (Inl err)
    with True show ?thesis by (simp add: aware_mapping_def caught_def shaped_top_level_catch)
  next
    case (Inr resp)
    then have "shaped (Inr resp)"
      by (auto simp add: success_response_def success_response_built error_response
          shaped_error shaped_success split: sum.splits if_splits)
    with True Inr show ?thesis by (simp add: aware_mapping_def caught_def)
  qed
qed

lemma shaped_relay: "shaped (fst (POST_catch (POST_relay e m fetch w)))"
proof (cases "truthy_str (OPENROUTER_API_KEY e)")
  case True
  then obtain k where "OPENROUTER_API_KEY e = Some k" "k \<noteq> []"
    by (cases "OPENROUTER_API_KEY e") auto
  then show ?thesis
    by (simp add: POST_relay_fst shaped_fetch_error shaped_aware_mapping
        split: fetch_outcome.splits)
next
  case False
  then show ?thesis by (simp add: POST_relay_no_key shaped_error)
qed

lemma shaped_POST: "shaped (fst (POST e req fetch w))"
proof (cases req rule: read_message_cases)
  case (unparsed err)
  then show ?thesis by (simp add: POST_unparsed shaped_error)
next
  case (invalid m)
  then show ?thesis by (simp add: POST_invalid shaped_error)
next
  case (valid ms)
  then show ?thesis by (simp add: POST_valid shaped_relay)
qed

lemma shaped_route_mapping: "shaped (route_mapping r)"
proof (cases "ok r")
  case True
  then show ?thesis
    by (cases rule: route_mapping_ok_cases [OF True]) (simp_all add: shaped_error shaped_success)
next
  case False
  then show ?thesis
    by (auto simp add: route_mapping_not_ok shaped_error ok_def split: sum.splits)
qed

lemma shaped_route_POST:
  assumes "route_POST e req fetch = Some x"
  shows "shaped x"
proof (cases req rule: read_message_cases)
  case (unparsed err)
  with assms show ?thesis by (auto simp add: route_POST_unparsed shaped_error)
next
  case (invalid m)
  with assms show ?thesis by (auto simp add: route_POST_invalid shaped_error)
next
  case (valid ms)
  show ?thesis
  proof (cases "truthy_str (OPENROUTER_API_KEY e)")
    case True
    then obtain k where k: "OPENROUTER_API_KEY e = Some k" "k \<noteq> []"
      by (cases "OPENROUTER_API_KEY e") auto
    with assms valid show ?thesis
      by (auto simp add: route_POST_valid shaped_route_mapping shaped_error
          split: fetch_outcome.splits)
  next
    case False
    with assms valid show ?thesis by (auto simp add: route_POST_no_key shaped_error)
  qed
qed

text \<open>
  Claim C9, as amended. Neither variant ever throws, and every response of either has one
  of two shapes: status 200 with a body that is exactly
  \<^verbatim>\<open>{ success: true, response: v }\<close> or \<^verbatim>\<open>{ success: true, response: v, usage: u }\<close>, where
  \<open>v\<close> is the literal string or the upstream content as serialised (of whatever JSON type,
  \<^verbatim>\<open>null\<close> for an infinite number), or a status outside 200 to 299 with a body that is
  exactly \<^verbatim>\<open>{ error: m }\<close> for a string \<open>m\<close>. So an error body never comes with a 2xx
  status and \<^verbatim>\<open>success: true\<close> never with a status other than 200.
\<close>

theorem response_shapes:
  "shaped (fst (POST e req fetch w))
   \<and> (case route_POST e req fetch of None \<Rightarrow> True | Some x \<Rightarrow> shaped x)"
  by (simp add: shaped_POST shaped_route_POST split: option.splits)

text \<open>
  Both shapes, as the handlers produce them: the example of the specification, the content
  \<^verbatim>\<open>1e400\<close>, and the answers of the two variants to the upstream status 304.
\<close>

theorem response_shapes_witness:
  "shaped (Inr \<lparr>status = 200,
                body = JObj [(''success'', JBool True), (''response'', JStr ''Hi there''),
                             (''usage'', JObj [(''total_tokens'', JNum (Finite 5))])]\<rparr>)
   \<and> shaped (Inr \<lparr>status = 200, body = JObj [(''success'', JBool True), (''response'', JNull)]\<rparr>)
   \<and> shaped (Inr \<lparr>status = 500,
                   body = JObj [(''error'', JStr ''An unexpected error occurred. Please try again.'')]\<rparr>)
   \<and> shaped (Inr \<lparr>status = 500, body = JObj [(''error'', JStr ''Internal server error'')]\<rparr>)"
proof -
  let ?hi = "respond 200 (JObj [(''choices'',
               JArr [JObj [(''message'', JObj [(''content'', JStr ''Hi there'')])]]),
             (''usage'', JObj [(''total_tokens'', JNum (Finite 5))])])"
  let ?inf = "respond 200 (JObj [(''choices'',
               JArr [JObj [(''message'', JObj [(''content'', JNum PosInfinity)])]])])"
  have 1: "fst (POST example_env example_request ?hi example_world)
     = Inr \<lparr>status = 200,
            body = JObj [(''success'', JBool True), (''response'', JStr ''Hi there''),
                         (''usage'', JObj [(''total_tokens'', JNum (Finite 5))])]\<rparr>"
    by (simp add: example_POST respond_def ok_def aware_mapping_def caught_def
        success_response_def success_response_built first_content_def or_default_def)
  have 2: "fst (POST example_env example_request ?inf example_world)
     = Inr \<lparr>status = 200, body = JObj [(''success'', JBool True), (''response'', JNull)]\<rparr>"
    by (simp add: example_POST respond_def ok_def aware_mapping_def caught_def
        success_response_def success_response_built first_content_def or_default_def)
  have 3: "fst (POST example_env example_request (respond 304 JNull) example_world)
     = Inr \<lparr>status = 500,
            body = JObj [(''error'', JStr ''An unexpected error occurred. Please try again.'')]\<rparr>"
    by (simp add: example_POST respond_def ok_def aware_mapping_not_ok)
  have 4: "route_POST example_env example_request (respond 304 JNull)
     = Some (Inr \<lparr>status = 500, body = JObj [(''error'', JStr ''Internal server error'')]\<rparr>)"
    by (simp add: route_POST_valid [OF example_request_message example_env_key]
        respond_def ok_def route_mapping_not_ok)
  from response_shapes [of example_env example_request ?hi example_world]
    response_shapes [of example_env example_request ?inf example_world]
    response_shapes [of example_env example_request "respond 304 JNull" example_world]
    1 2 3 4
  show ?thesis by simp
qed

text \<open>
  Claim C9 as stated fails on the type of \<^verbatim>\<open>response\<close>: an upstream content that is the
  number 42 is handed on as a number.
\<close>

theorem non_string_response_counterexample:
  "fst (POST example_env example_request
          (respond 200 (JObj [(''choices'',
             JArr [JObj [(''message'', JObj [(''content'', JNum (Finite 42))])]])]))
          example_world)
     = Inr \<lparr>status = 200,
            body = JObj [(''success'', JBool True), (''response'', JNum (Finite 42))]\<rparr>"
  by (simp add: example_POST respond_def ok_def aware_mapping_def caught_def
      success_response_def success_response_built first_content_def or_default_def)

subsection \<open>The API key and the response\<close>

text \<open>
  Claim C10, as amended. For any two non-empty keys, when the network gives the same
  outcome for the two upstream calls of the request, the handler returns the same status
  and body; and the two calls differ in the \<^verbatim>\<open>Authorization\<close> header alone, the one place
  where the key is written. Whether the text of a response contains the key is another
  matter: the fixed messages and the upstream content may hold it.
\<close>

theorem api_key_noninterference:
  assumes "k1 \<noteq> []" and "k2 \<noteq> []"
    and "\<And>m. read_message req = Inr (Some m) \<Longrightarrow>
           fetch (upstream_call (e\<lparr>OPENROUTER_API_KEY := Some k1\<rparr>) k1 m)
             = fetch (upstream_call (e\<lparr>OPENROUTER_API_KEY := Some k2\<rparr>) k2 m)"
  shows "fst (POST (e\<lparr>OPENROUTER_API_KEY := Some k1\<rparr>) req fetch w)
         = fst (POST (e\<lparr>OPENROUTER_API_KEY := Some k2\<rparr>) req fetch w)
         \<and> upstream_call (e\<lparr>OPENROUTER_API_KEY := Some k1\<rparr>) k1 m
           = (upstream_call (e\<lparr>OPENROUTER_API_KEY := Some k2\<rparr>) k2 m)
               \<lparr>headers := (''Authorization'', ''Bearer '' @ k1)
                  # tl (headers (upstream_call (e\<lparr>OPENROUTER_API_KEY := Some k2\<rparr>) k2 m))\<rparr>"
proof (cases req rule: read_message_cases)
  case (unparsed err)
  then show ?thesis by (simp add: POST_unparsed upstream_call_def)
next
  case (invalid m)
  then show ?thesis by (simp add: POST_invalid upstream_call_def)
next
  case (valid ms)
  with assms show ?thesis by (simp add: POST_valid POST_relay_fst upstream_call_def)
qed

theorem api_key_noninterference_witness:
  "fst (POST (example_env\<lparr>OPENROUTER_API_KEY := Some ''sk-test''\<rparr>) example_request
          (respond 200 (JObj [(''choices'',
               JArr [JObj [(''message'', JObj [(''content'', JStr ''Hi there'')])]])]))
          example_world)
     = fst (POST (example_env\<lparr>OPENROUTER_API_KEY := Some ''sk-other''\<rparr>) example_request
          (respond 200 (JObj [(''choices'',
               JArr [JObj [(''message'', JObj [(''content'', JStr ''Hi there'')])]])]))
          example_world)
   \<and> fst (POST (example_env\<lparr>OPENROUTER_API_KEY := Some ''sk-other''\<rparr>) example_request
          (respond 200 (JObj [(''choices'',
               JArr [JObj [(''message'', JObj [(''content'', JStr ''Hi there'')])]])]))
          example_world)
     = Inr \<lparr>status = 200,
            body = JObj [(''success'', JBool True), (''response'', JStr ''Hi there'')]\<rparr>"
proof -
  let ?f = "respond 200 (JObj [(''choices'',
               JArr [JObj [(''message'', JObj [(''content'', JStr ''Hi there'')])]])])"
  have k: "OPENROUTER_API_KEY (example_env\<lparr>OPENROUTER_API_KEY := Some ''sk-other''\<rparr>)
             = Some ''sk-other''"
    by simp
  have "fst (POST (example_env\<lparr>OPENROUTER_API_KEY := Some ''sk-other''\<rparr>) example_request ?f
          example_world)
     = Inr \<lparr>status = 200,
            body = JObj [(''success'', JBool True), (''response'', JStr ''Hi there'')]\<rparr>"
    by (simp add: POST_valid [OF example_request_message] POST_relay_fst [OF k]
        respond_def ok_def aware_mapping_def caught_def
        success_response_def success_response_built first_content_def or_default_def)
  with api_key_noninterference
    [where e = example_env and ?k1.0 = "''sk-test''" and ?k2.0 = "''sk-other''"
       and req = example_request and fetch = ?f and w = example_world]
  show ?thesis by (simp add: respond_def)
qed

text \<open>
  Claim C10 as stated fails where the upstream reply carries the key: with a network
  that replies with the \<^verbatim>\<open>Authorization\<close> header it received, the body of the response
  holds the key, and two keys give two different bodies.
\<close>

theorem key_echo_counterexample:
  "fst (POST (example_env\<lparr>OPENROUTER_API_KEY := Some ''sk-test''\<rparr>) example_request echo_fetch
          example_world)
     = Inr \<lparr>status = 200,
            body = JObj [(''success'', JBool True), (''response'', JStr ''Bearer sk-test'')]\<rparr>
   \<and> occurs_in ''sk-test''
       (JObj [(''success'', JBool True), (''response'', JStr ''Bearer sk-test'')])
   \<and> fst (POST (example_env\<lparr>OPENROUTER_API_KEY := Some ''sk-other''\<rparr>) example_request echo_fetch
          example_world)
     = Inr \<lparr>status = 200,
            body = JObj [(''success'', JBool True), (''response'', JStr ''Bearer sk-other'')]\<rparr>"
proof -
  have k: "OPENROUTER_API_KEY (example_env\<lparr>OPENROUTER_API_KEY := Some x\<rparr>) = Some x" for x
    by simp
  have e: "fst (POST (example_env\<lparr>OPENROUTER_API_KEY := Some (c # cs)\<rparr>) example_request echo_fetch
            example_world)
     = Inr \<lparr>status = 200,
        body = JObj [(''success'', JBool True), (''response'', JStr (''Bearer '' @ c # cs))]\<rparr>" for c cs
    by (simp add: POST_valid [OF example_request_message] POST_relay_fst [OF k]
        echo_fetch_def upstream_call_def ok_def aware_mapping_def caught_def
        success_response_def success_response_built first_content_def or_default_def)
  show ?thesis
    using e [of "CHR ''s''" "''k-test''"] e [of "CHR ''s''" "''k-other''"] by simp
qed

end
